theory Spec2Isabelle
  imports Main "HOL-Library.Word"
begin

section \<open>The operating system as the lock code sees it\<close>

text \<open>
  \<^verbatim>\<open>src/libap/lockfile.c\<close> talks to its environment through libc calls only.
  Each call is a value of \<open>call\<close>; the environment answers with a \<open>reply\<close>.
  A \<open>world\<close> holds a kernel (any function from a call and a kernel state to a reply
  and the next state), the C variable \<open>errno\<close>, and a log of every call made with the
  reply it got.  The log is a ghost variable: the code never reads it.
\<close>

type_synonym path = string

datatype errno = ENONE | EPERM | ENOENT | ESRCH | EIO | EACCES | EEXIST | ENOMEM
  | ENOSPC | EINVAL | EMFILE | EBADF

record stat =
  st_dev :: nat
  st_ino :: nat
  st_rdev :: nat
  st_atime :: int
  st_mtime :: int

text \<open>The two ways the code opens a file: \<^verbatim>\<open>O_RDONLY\<close>, and
  \<^verbatim>\<open>O_WRONLY | O_CREAT | O_EXCL | O_CLOEXEC\<close> with mode 0644.\<close>

datatype oflag = O_RDONLY | O_CREAT_EXCL

datatype call =
    Getpid
  | Time
  | Stat path
  | Lstat path
  | Fstat int
  | Open path oflag
  | Read int nat
  | Write int string
  | Close int
  | Kill int int
  | Link path path
  | Unlink path
  | Sleep int
  | Malloc nat

datatype reply =
    Fail errno
  | Done int
  | Stat_buf stat
  | Bytes string

record 'k world =
  kernel :: "call \<Rightarrow> 'k \<Rightarrow> reply \<times> 'k"
  kstate :: 'k
  errno :: errno
  trace :: "(call \<times> reply) list"

definition syscall :: "call \<Rightarrow> 'k world \<Rightarrow> reply \<times> 'k world" where
  "syscall c w =
     (case kernel w c (kstate w) of
        (r, k) \<Rightarrow> (r, w\<lparr>kstate := k, trace := trace w @ [(c, r)]\<rparr>))"

text \<open>
  How C sees a reply.  A call that reports only success or failure (\<^verbatim>\<open>link\<close>,
  \<^verbatim>\<open>unlink\<close>, \<^verbatim>\<open>close\<close>, \<^verbatim>\<open>kill\<close>) returns \<open>0\<close>, or \<open>-1\<close> with \<open>errno\<close> set.
  A call that returns a number (\<^verbatim>\<open>open\<close>, \<^verbatim>\<open>write\<close>, \<^verbatim>\<open>getpid\<close>, \<^verbatim>\<open>time\<close>,
  \<^verbatim>\<open>malloc\<close>) returns it, or \<open>-1\<close> with \<open>errno\<close> set.  The \<^verbatim>\<open>stat\<close> family fills
  the caller's buffer on success and leaves it alone on failure.  \<^verbatim>\<open>read\<close> never
  stores more than the \<open>n\<close> bytes asked for.  A reply of a shape the call cannot
  give is read as failure with \<open>EINVAL\<close>.
\<close>

definition sys_status :: "call \<Rightarrow> 'k world \<Rightarrow> int \<times> 'k world" where
  "sys_status c w =
     (case syscall c w of
        (Fail e, w') \<Rightarrow> (- 1, w'\<lparr>errno := e\<rparr>)
      | (Done n, w') \<Rightarrow> (0, w')
      | (Stat_buf s, w') \<Rightarrow> (- 1, w'\<lparr>errno := EINVAL\<rparr>)
      | (Bytes b, w') \<Rightarrow> (- 1, w'\<lparr>errno := EINVAL\<rparr>))"

definition sys_value :: "call \<Rightarrow> 'k world \<Rightarrow> int \<times> 'k world" where
  "sys_value c w =
     (case syscall c w of
        (Fail e, w') \<Rightarrow> (- 1, w'\<lparr>errno := e\<rparr>)
      | (Done n, w') \<Rightarrow> (n, w')
      | (Stat_buf s, w') \<Rightarrow> (- 1, w'\<lparr>errno := EINVAL\<rparr>)
      | (Bytes b, w') \<Rightarrow> (- 1, w'\<lparr>errno := EINVAL\<rparr>))"

definition sys_statbuf :: "call \<Rightarrow> stat \<Rightarrow> 'k world \<Rightarrow> (int \<times> stat) \<times> 'k world" where
  "sys_statbuf c buf w =
     (case syscall c w of
        (Fail e, w') \<Rightarrow> ((- 1, buf), w'\<lparr>errno := e\<rparr>)
      | (Done n, w') \<Rightarrow> ((- 1, buf), w'\<lparr>errno := EINVAL\<rparr>)
      | (Stat_buf s, w') \<Rightarrow> ((0, s), w')
      | (Bytes b, w') \<Rightarrow> ((- 1, buf), w'\<lparr>errno := EINVAL\<rparr>))"

definition sys_read :: "int \<Rightarrow> nat \<Rightarrow> 'k world \<Rightarrow> (int \<times> string) \<times> 'k world" where
  "sys_read fd n w =
     (case syscall (Read fd n) w of
        (Fail e, w') \<Rightarrow> ((- 1, []), w'\<lparr>errno := e\<rparr>)
      | (Done m, w') \<Rightarrow> ((- 1, []), w'\<lparr>errno := EINVAL\<rparr>)
      | (Stat_buf s, w') \<Rightarrow> ((- 1, []), w'\<lparr>errno := EINVAL\<rparr>)
      | (Bytes b, w') \<Rightarrow> ((int (length (take n b)), take n b), w'))"

definition sys_getpid :: "'k world \<Rightarrow> int \<times> 'k world" where
  "sys_getpid = sys_value Getpid"

definition sys_time :: "'k world \<Rightarrow> int \<times> 'k world" where
  "sys_time = sys_value Time"

definition sys_stat :: "path \<Rightarrow> stat \<Rightarrow> 'k world \<Rightarrow> (int \<times> stat) \<times> 'k world" where
  "sys_stat p = sys_statbuf (Stat p)"

definition sys_lstat :: "path \<Rightarrow> stat \<Rightarrow> 'k world \<Rightarrow> (int \<times> stat) \<times> 'k world" where
  "sys_lstat p = sys_statbuf (Lstat p)"

definition sys_fstat :: "int \<Rightarrow> stat \<Rightarrow> 'k world \<Rightarrow> (int \<times> stat) \<times> 'k world" where
  "sys_fstat fd = sys_statbuf (Fstat fd)"

definition sys_open :: "path \<Rightarrow> oflag \<Rightarrow> 'k world \<Rightarrow> int \<times> 'k world" where
  "sys_open p fl = sys_value (Open p fl)"

definition sys_write :: "int \<Rightarrow> string \<Rightarrow> 'k world \<Rightarrow> int \<times> 'k world" where
  "sys_write fd s = sys_value (Write fd s)"

definition sys_close :: "int \<Rightarrow> 'k world \<Rightarrow> int \<times> 'k world" where
  "sys_close fd = sys_status (Close fd)"

definition sys_kill :: "int \<Rightarrow> int \<Rightarrow> 'k world \<Rightarrow> int \<times> 'k world" where
  "sys_kill pid sig = sys_status (Kill pid sig)"

definition sys_link :: "path \<Rightarrow> path \<Rightarrow> 'k world \<Rightarrow> int \<times> 'k world" where
  "sys_link old new = sys_status (Link old new)"

definition sys_unlink :: "path \<Rightarrow> 'k world \<Rightarrow> int \<times> 'k world" where
  "sys_unlink p = sys_status (Unlink p)"

definition sys_sleep :: "int \<Rightarrow> 'k world \<Rightarrow> int \<times> 'k world" where
  "sys_sleep n = sys_value (Sleep n)"

definition sys_malloc :: "nat \<Rightarrow> 'k world \<Rightarrow> bool \<times> 'k world" where
  "sys_malloc n w = (case sys_value (Malloc n) w of (r, w') \<Rightarrow> (0 \<le> r, w'))"

text \<open>The contents of a \<^verbatim>\<open>struct stat\<close> that no call has filled yet.  The code
  reads a buffer only after a call that filled it.\<close>

definition stat_unset :: stat where
  "stat_unset = \<lparr>st_dev = 0, st_ino = 0, st_rdev = 0, st_atime = 0, st_mtime = 0\<rparr>"

section \<open>The C library's formatting and parsing\<close>

definition digit_char :: "nat \<Rightarrow> char" where
  "digit_char d = ''0123456789abcdef'' ! (d mod 16)"

fun dec_digits :: "nat \<Rightarrow> string" where
  "dec_digits n = (if n < 10 then [digit_char n] else dec_digits (n div 10) @ [digit_char (n mod 10)])"

fun hex_digits :: "nat \<Rightarrow> string" where
  "hex_digits n = (if n < 16 then [digit_char n] else hex_digits (n div 16) @ [digit_char (n mod 16)])"

definition zero_pad :: "nat \<Rightarrow> string \<Rightarrow> string" where
  "zero_pad width s = replicate (width - length s) CHR ''0'' @ s"

text \<open>\<^verbatim>\<open>%d\<close>, \<^verbatim>\<open>%0*d\<close> and \<^verbatim>\<open>%0*x\<close>.  The width is a minimum: a longer number
  is printed in full.\<close>

definition fmt_d :: "int \<Rightarrow> string" where
  "fmt_d i = (if i < 0 then CHR ''-'' # dec_digits (nat (- i)) else dec_digits (nat i))"

definition fmt_0d :: "nat \<Rightarrow> int \<Rightarrow> string" where
  "fmt_0d width i =
     (if i < 0 then CHR ''-'' # zero_pad (width - 1) (dec_digits (nat (- i)))
      else zero_pad width (dec_digits (nat i)))"

definition fmt_0x :: "nat \<Rightarrow> nat \<Rightarrow> string" where
  "fmt_0x width n = zero_pad width (hex_digits n)"

definition INT_MAX :: int where
  "INT_MAX = 2147483647"

text \<open>\<^verbatim>\<open>snprintf(buf, size, ...)\<close> with \<open>size > 0\<close>, given the fully formatted text:
  it returns the length of the full text (negative when that does not fit an
  \<^verbatim>\<open>int\<close>) and leaves in the buffer the C string of the first \<open>size - 1\<close> characters.\<close>

definition snprintf :: "nat \<Rightarrow> string \<Rightarrow> int \<times> string" where
  "snprintf bufsize s =
     (if INT_MAX < int (length s) then (- 1, take (bufsize - 1) s)
      else (int (length s), take (bufsize - 1) s))"

text \<open>A buffer read as a C string: the bytes before the first NUL.\<close>

definition c_string :: "string \<Rightarrow> string" where
  "c_string b = takeWhile (\<lambda>c. c \<noteq> CHR 0x00) b"

definition is_space :: "char \<Rightarrow> bool" where
  "is_space c = (c \<in> set [CHR '' '', CHR 0x09, CHR 0x0A, CHR 0x0B, CHR 0x0C, CHR 0x0D])"

definition is_digit :: "char \<Rightarrow> bool" where
  "is_digit c = (c \<in> set ''0123456789'')"

definition digit_val :: "char \<Rightarrow> int" where
  "digit_val c = int (of_char c) - 48"

definition dec_value :: "string \<Rightarrow> int" where
  "dec_value ds = foldl (\<lambda>a c. 10 * a + digit_val c) 0 ds"

text \<open>A value stored in a 32-bit \<^verbatim>\<open>int\<close>, as two's complement keeps it.\<close>

definition to_int32 :: "int \<Rightarrow> int" where
  "to_int32 v = sint (word_of_int v :: 32 word)"

text \<open>\<^verbatim>\<open>atoi\<close> as glibc on a 64-bit target computes it, \<^verbatim>\<open>(int) strtol(s, NULL, 10)\<close>:
  leading white space, an optional sign, then the longest run of digits.  The
  code's buffer holds at most 15 characters, so \<^verbatim>\<open>strtol\<close> never saturates.\<close>

definition atoi :: "string \<Rightarrow> int" where
  "atoi s =
     (let t = dropWhile is_space s in
      case t of
        [] \<Rightarrow> 0
      | c # r \<Rightarrow>
          if c = CHR ''-'' then to_int32 (- dec_value (takeWhile is_digit r))
          else if c = CHR ''+'' then to_int32 (dec_value (takeWhile is_digit r))
          else to_int32 (dec_value (takeWhile is_digit t)))"

section \<open>\<^verbatim>\<open>lockfile.h\<close> and the constants of \<^verbatim>\<open>lockfile.c\<close>\<close>

definition LOCK_ERR_TMPLOCK :: int where "LOCK_ERR_TMPLOCK = 2"
definition LOCK_ERR_TMPWRITE :: int where "LOCK_ERR_TMPWRITE = 3"
definition LOCK_ERR_MAXRETRIES :: int where "LOCK_ERR_MAXRETRIES = 4"
definition LOCK_ERR_GENERIC :: int where "LOCK_ERR_GENERIC = 5"
definition LOCK_ERR_ORPHANED :: int where "LOCK_ERR_ORPHANED = 7"
definition LOCK_ERR_RMSTALE :: int where "LOCK_ERR_RMSTALE = 8"
definition UNLOCK_ERR_GENERIC :: int where "UNLOCK_ERR_GENERIC = - 1"

definition TMPLOCK_EXT :: string where "TMPLOCK_EXT = ''.lk''"
definition TMPLOCK_EXT_SIZE :: nat where "TMPLOCK_EXT_SIZE = length TMPLOCK_EXT"
definition TMPLOCK_PID_SIZE :: nat where "TMPLOCK_PID_SIZE = 5"
definition TMPLOCK_TIME_SIZE :: nat where "TMPLOCK_TIME_SIZE = 1"
definition TMPLOCK_SUFFIX_SIZE :: nat where
  "TMPLOCK_SUFFIX_SIZE = TMPLOCK_EXT_SIZE + TMPLOCK_PID_SIZE + TMPLOCK_TIME_SIZE"

text \<open>Behaviour the C standard leaves undefined is a value of its own, so that no
  theorem about a return value covers a run that has none: the store past the end
  of a buffer (line 86), and the overflow of a signed addition (lines 109 and 130).\<close>

datatype fault =
    Out_of_bounds nat nat
  | Signed_overflow

section \<open>\<^verbatim>\<open>tmplock_filename\<close>\<close>

text \<open>
  A \<^verbatim>\<open>char *\<close> argument is \<open>None\<close> for \<^verbatim>\<open>NULL\<close>; the buffer is given and returned
  as the C string it holds.  \<^verbatim>\<open>(int)time(NULL) & 15\<close> keeps the low four bits, which
  is \<open>mod 16\<close> on two's complement.  C leaves the order of \<^verbatim>\<open>getpid()\<close> and
  \<^verbatim>\<open>time(NULL)\<close> among the arguments open; here \<^verbatim>\<open>getpid()\<close> is called first.
\<close>

definition tmplock_filename ::
  "path option \<Rightarrow> string option \<Rightarrow> nat \<Rightarrow> 'k world \<Rightarrow> (int \<times> string option) \<times> 'k world" where
  "tmplock_filename lockfile tmplock_buf tmplock_bufsize w =
     (case lockfile of
        None \<Rightarrow> ((LOCK_ERR_GENERIC, tmplock_buf), w)
      | Some lk \<Rightarrow>
          (case tmplock_buf of
             None \<Rightarrow> ((LOCK_ERR_GENERIC, tmplock_buf), w)
           | Some old \<Rightarrow>
               if tmplock_bufsize = 0 then ((LOCK_ERR_GENERIC, tmplock_buf), w)
               else
                 (case sys_getpid w of
                    (pid, w1) \<Rightarrow>
                      (case sys_time w1 of
                         (t, w2) \<Rightarrow>
                           (case snprintf tmplock_bufsize
                                   (lk @ TMPLOCK_EXT @ fmt_0d TMPLOCK_PID_SIZE pid
                                      @ fmt_0x TMPLOCK_TIME_SIZE (nat (t mod 16))) of
                              (r, buf) \<Rightarrow>
                                if r < 0 then ((LOCK_ERR_GENERIC, Some buf), w2)
                                else ((0, Some buf), w2))))))"

section \<open>\<^verbatim>\<open>lockfile_check_valid\<close>\<close>

text \<open>The local variables \<^verbatim>\<open>st\<close>, \<^verbatim>\<open>now\<close> and \<^verbatim>\<open>pid\<close> as they stand at line 90,
  after the lock file has been read.\<close>

record examined =
  ex_st :: stat
  ex_now :: int
  ex_pid :: int

text \<open>Lines 84 to 88: \<^verbatim>\<open>buf\<close> has 16 bytes, and \<^verbatim>\<open>buf[len] = 0\<close> is a store
  outside it when \<open>len\<close> is 16.\<close>

definition parse_pid :: "int \<Rightarrow> string \<Rightarrow> fault + int" where
  "parse_pid len buf =
     (if 0 < len then
        (if nat len < 16 then Inr (atoi (c_string (take (nat len) buf)))
         else Inl (Out_of_bounds (nat len) 16))
      else Inr 0)"

text \<open>Lines 66 to 89, entered with \<^verbatim>\<open>st\<close> as \<^verbatim>\<open>stat\<close> filled it.\<close>

definition lockfile_examine ::
  "path \<Rightarrow> stat \<Rightarrow> 'k world \<Rightarrow> (fault + examined) \<times> 'k world" where
  "lockfile_examine lockfile st0 w0 =
     (case sys_time w0 of
        (now0, w1) \<Rightarrow>
          (case sys_open lockfile O_RDONLY w1 of
             (fd, w2) \<Rightarrow>
               if 0 \<le> fd then
                 (case sys_fstat fd st0 w2 of
                    ((r1, st), w3) \<Rightarrow>
                      if r1 = 0 then
                        (case sys_read fd 16 w3 of
                           ((len, buf), w4) \<Rightarrow>
                             if 0 \<le> len then
                               (case sys_fstat fd stat_unset w4 of
                                  ((r2, st2), w5) \<Rightarrow>
                                    (case sys_close fd w5 of
                                       (c, w6) \<Rightarrow>
                                         (case parse_pid len buf of
                                            Inl f \<Rightarrow> (Inl f, w6)
                                          | Inr pid \<Rightarrow>
                                              (Inr \<lparr>ex_st = st,
                                                    ex_now = (if r2 = 0 \<and> st_atime st \<noteq> st_atime st2
                                                              then st_atime st else now0),
                                                    ex_pid = pid\<rparr>, w6))))
                             else
                               (case sys_close fd w4 of
                                  (c, w5) \<Rightarrow>
                                    (case parse_pid len buf of
                                       Inl f \<Rightarrow> (Inl f, w5)
                                     | Inr pid \<Rightarrow>
                                         (Inr \<lparr>ex_st = st, ex_now = now0, ex_pid = pid\<rparr>, w5))))
                      else
                        (case sys_close fd w3 of
                           (c, w4) \<Rightarrow>
                             (case parse_pid 0 [] of
                                Inl f \<Rightarrow> (Inl f, w4)
                              | Inr pid \<Rightarrow>
                                  (Inr \<lparr>ex_st = st, ex_now = now0, ex_pid = pid\<rparr>, w4))))
               else (Inr \<lparr>ex_st = st0, ex_now = now0, ex_pid = 0\<rparr>, w2)))"

text \<open>Lines 105 to 112.  \<^verbatim>\<open>time_t\<close> is a signed 64-bit integer on the 64-bit targets
  of the package; \<^verbatim>\<open>st.st_mtime + 300\<close> overflows when the modification time is
  within 300 seconds of its largest value.\<close>

definition TIME_MAX :: int where
  "TIME_MAX = 9223372036854775807"

definition newer_than_5_mins :: "examined \<Rightarrow> fault + bool" where
  "newer_than_5_mins x =
     (if TIME_MAX - 300 < st_mtime (ex_st x) then Inl Signed_overflow
      else Inr (ex_now x < st_mtime (ex_st x) + 300))"

text \<open>Lines 91 to 112.\<close>

definition lockfile_decide :: "examined \<Rightarrow> 'k world \<Rightarrow> (fault + bool) \<times> 'k world" where
  "lockfile_decide x w =
     (if 0 < ex_pid x then
        (case sys_kill (ex_pid x) 0 w of
           (r, w1) \<Rightarrow>
             if r = 0 \<or> (r < 0 \<and> errno w1 = EPERM) then (Inr True, w1)
             else if r < 0 \<and> errno w1 = ESRCH then (Inr False, w1)
             else (newer_than_5_mins x, w1))
      else (newer_than_5_mins x, w))"

definition lockfile_check_valid ::
  "path option \<Rightarrow> 'k world \<Rightarrow> (fault + bool) \<times> 'k world" where
  "lockfile_check_valid lockfile w =
     (case lockfile of
        None \<Rightarrow> (Inr False, w)
      | Some lk \<Rightarrow>
          (case sys_stat lk stat_unset w of
             ((r, st), w1) \<Rightarrow>
               if r < 0 then (Inr False, w1)
               else
                 (case lockfile_examine lk st w1 of
                    (Inl f, w2) \<Rightarrow> (Inl f, w2)
                  | (Inr x, w2) \<Rightarrow> lockfile_decide x w2)))"

section \<open>\<^verbatim>\<open>lockfile_try_create\<close>\<close>

text \<open>The variables of the retry loop (lines 126 to 130).\<close>

record loop_vars =
  lv_i :: int
  lv_tries :: int
  lv_sleeptime :: int
  lv_statfailed :: int
  lv_dontsleep :: bool

text \<open>How one pass through the loop body ends: a \<^verbatim>\<open>return\<close>, undefined behaviour,
  or the end of the body (also by \<^verbatim>\<open>continue\<close>) with the variables as they are then.\<close>

datatype flow =
    Return int
  | Crash fault
  | Again loop_vars

text \<open>The body of the loop, lines 158 to 221.\<close>

definition try_link :: "path \<Rightarrow> path \<Rightarrow> loop_vars \<Rightarrow> 'k world \<Rightarrow> flow \<times> 'k world" where
  "try_link lockfile tmplock v w0 =
     (case (if \<not> lv_dontsleep v
            then (let s = (if 60 < lv_sleeptime v + 5 then 60 else lv_sleeptime v + 5)
                  in (s, snd (sys_sleep s w0)))
            else (lv_sleeptime v, w0)) of
        (sleeptime, w1) \<Rightarrow>
          (case sys_link tmplock lockfile w1 of
             (l, w2) \<Rightarrow>
               (case sys_lstat tmplock stat_unset w2 of
                  ((r1, st1), w3) \<Rightarrow>
                    if r1 < 0 then (Return LOCK_ERR_GENERIC, w3)
                    else
                      (case sys_lstat lockfile stat_unset w3 of
                         ((r, st), w4) \<Rightarrow>
                           if r < 0 then
                             (if 5 < lv_statfailed v
                              then (Return LOCK_ERR_MAXRETRIES, snd (sys_unlink tmplock w4))
                              else (Again (v\<lparr>lv_sleeptime := sleeptime, lv_dontsleep := False,
                                              lv_statfailed := lv_statfailed v + 1\<rparr>), w4))
                           else if st_rdev st = st_rdev st1 \<and> st_ino st = st_ino st1
                           then (Return 0, snd (sys_unlink tmplock w4))
                           else
                             (case lockfile_check_valid (Some lockfile) w4 of
                                (Inl f, w5) \<Rightarrow> (Crash f, w5)
                              | (Inr valid, w5) \<Rightarrow>
                                  if \<not> valid then
                                    (case sys_unlink lockfile w5 of
                                       (u, w6) \<Rightarrow>
                                         if u < 0 \<and> errno w6 \<noteq> ENOENT
                                         then (Return LOCK_ERR_RMSTALE, w6)
                                         else (Again (v\<lparr>lv_sleeptime := sleeptime,
                                                         lv_dontsleep := True,
                                                         lv_statfailed := 0,
                                                         lv_tries := (if lv_tries v = 1
                                                                      then lv_tries v + 1
                                                                      else lv_tries v)\<rparr>), w6))
                                  else (Again (v\<lparr>lv_sleeptime := sleeptime, lv_dontsleep := False,
                                                  lv_statfailed := 0\<rparr>), w5))))))"

text \<open>The loop, lines 156 to 225: \<^verbatim>\<open>for (i = 0; i < tries && tries > 0; i++)\<close>, then
  the cleanup after it.\<close>

function link_loop :: "path \<Rightarrow> path \<Rightarrow> loop_vars \<Rightarrow> 'k world \<Rightarrow> (fault + int) \<times> 'k world" where
  "link_loop lockfile tmplock v w =
     (if lv_i v < lv_tries v \<and> 0 < lv_tries v then
        (case try_link lockfile tmplock v w of
           (Return r, w') \<Rightarrow> (Inr r, w')
         | (Crash f, w') \<Rightarrow> (Inl f, w')
         | (Again v', w') \<Rightarrow> link_loop lockfile tmplock (v'\<lparr>lv_i := lv_i v' + 1\<rparr>) w')
      else (Inr LOCK_ERR_MAXRETRIES, snd (sys_unlink tmplock w)))"
  by pat_completeness auto
termination
  apply (relation "measure (\<lambda>(lockfile, tmplock, v, w). nat (max (lv_tries v) 2 - lv_i v))")
   apply simp
  apply (auto simp: try_link_def Let_def split: prod.splits if_splits sum.splits)
  done

declare link_loop.simps [simp del]

text \<open>
  Lines 121 to 226.  \<^verbatim>\<open>lockfile\<close> is not \<^verbatim>\<open>NULL\<close> here (the one caller has checked it)
  and \<^verbatim>\<open>tmplock_buf\<close> is the caller's buffer.  \<^verbatim>\<open>retries\<close> is a C \<^verbatim>\<open>int\<close>;
  \<^verbatim>\<open>retries + 1\<close> overflows at \<^verbatim>\<open>INT_MAX\<close>.  The payload written to the temporary
  file is the first \<^verbatim>\<open>pidlen\<close> bytes of \<^verbatim>\<open>pidbuf\<close>.
\<close>

definition lockfile_try_create ::
  "path \<Rightarrow> int \<Rightarrow> string \<Rightarrow> nat \<Rightarrow> int \<Rightarrow> 'k world \<Rightarrow> (fault + int) \<times> 'k world" where
  "lockfile_try_create lockfile pid tmplock_buf tmplock_bufsize retries w =
     (if retries = INT_MAX then (Inl Signed_overflow, w)
      else
        (case snprintf 40 (fmt_d pid @ [CHR 0x0A]) of
           (pidlen, pidbuf) \<Rightarrow>
             if pidlen < 0 \<or> 40 - 1 < nat pidlen then (Inr LOCK_ERR_GENERIC, w)
             else
               (case tmplock_filename (Some lockfile) (Some tmplock_buf) tmplock_bufsize w of
                  ((r, buf), w1) \<Rightarrow>
                    if r \<noteq> 0 then (Inr r, w1)
                    else
                      (case buf of
                         None \<Rightarrow> (Inr LOCK_ERR_GENERIC, w1)
                       | Some tmplock \<Rightarrow>
                           (case sys_open tmplock O_CREAT_EXCL w1 of
                              (fd, w2) \<Rightarrow>
                                if fd < 0 then (Inr LOCK_ERR_TMPLOCK, w2)
                                else
                                  (case sys_write fd (take (nat pidlen) pidbuf) w2 of
                                     (written, w3) \<Rightarrow>
                                       (case sys_close fd w3 of
                                          (c, w4) \<Rightarrow>
                                            if c \<noteq> 0 \<or> written \<noteq> pidlen
                                            then (Inr LOCK_ERR_TMPWRITE, snd (sys_unlink tmplock w4))
                                            else link_loop lockfile tmplock
                                                   \<lparr>lv_i = 0, lv_tries = retries + 1,
                                                    lv_sleeptime = 0, lv_statfailed = 0,
                                                    lv_dontsleep = True\<rparr> w4)))))))"

section \<open>\<^verbatim>\<open>ap_lockfile_create\<close> and \<^verbatim>\<open>ap_lockfile_release\<close>\<close>

text \<open>\<^verbatim>\<open>retries\<close> is an \<^verbatim>\<open>unsigned int\<close>; passing it on as \<^verbatim>\<open>int\<close> reads the same
  32 bits as two's complement.\<close>

definition ap_lockfile_create ::
  "path option \<Rightarrow> int \<Rightarrow> 32 word \<Rightarrow> 'k world \<Rightarrow> (fault + int) \<times> 'k world" where
  "ap_lockfile_create lockfile pid retries w =
     (case lockfile of
        None \<Rightarrow> (Inr LOCK_ERR_GENERIC, w)
      | Some lk \<Rightarrow>
          if retries = 0 then (Inr LOCK_ERR_GENERIC, w)
          else
            (case sys_malloc (length lk + TMPLOCK_SUFFIX_SIZE + 1) w of
               (allocated, w1) \<Rightarrow>
                 if \<not> allocated then (Inr LOCK_ERR_GENERIC, w1)
                 else lockfile_try_create lk pid []
                        (length lk + TMPLOCK_SUFFIX_SIZE + 1) (sint retries) w1))"

definition ap_lockfile_release :: "path option \<Rightarrow> 'k world \<Rightarrow> int \<times> 'k world" where
  "ap_lockfile_release lockfile w =
     (case lockfile of
        None \<Rightarrow> (UNLOCK_ERR_GENERIC, w)
      | Some lk \<Rightarrow>
          (case sys_unlink lk w of
             (u, w1) \<Rightarrow>
               if u < 0 \<and> errno w1 \<noteq> ENOENT then (UNLOCK_ERR_GENERIC, w1)
               else (0, w1)))"

section \<open>A sequential machine to run the code on\<close>

text \<open>
  One kernel among all those the theorems below range over: a single directory of
  regular files on one host, with no other process running between two calls.
  Other processes show as the files they left and as the answer \<^verbatim>\<open>kill(pid, 0)\<close>
  gets at a given time.  A directory entry names an inode by device and inode
  number; a hard link is a second entry for the same inode.
\<close>

record inode =
  i_stat :: stat
  i_data :: string

record machine =
  m_pid :: int
  m_clock :: int
  m_dev :: nat
  m_next_ino :: nat
  m_dir :: "path \<Rightarrow> (nat \<times> nat) option"
  m_inodes :: "nat \<times> nat \<Rightarrow> inode option"
  m_fd :: "(nat \<times> nat) option"
  m_probe :: "int \<Rightarrow> int \<Rightarrow> reply"
  m_strictatime :: bool
  m_protected :: "path \<Rightarrow> bool"

definition stat_of :: "machine \<Rightarrow> nat \<times> nat \<Rightarrow> reply" where
  "stat_of m k = (case m_inodes m k of None \<Rightarrow> Fail EIO | Some f \<Rightarrow> Stat_buf (i_stat f))"

definition new_inode :: "machine \<Rightarrow> inode" where
  "new_inode m =
     \<lparr>i_stat = \<lparr>st_dev = m_dev m, st_ino = m_next_ino m, st_rdev = 0,
                st_atime = m_clock m, st_mtime = m_clock m\<rparr>,
      i_data = []\<rparr>"

fun unix :: "call \<Rightarrow> machine \<Rightarrow> reply \<times> machine" where
  "unix Getpid m = (Done (m_pid m), m)"
| "unix Time m = (Done (m_clock m), m)"
| "unix (Sleep n) m = (Done 0, m\<lparr>m_clock := m_clock m + n\<rparr>)"
| "unix (Malloc n) m = (Done 1, m)"
| "unix (Kill pid sig) m = (m_probe m (m_clock m) pid, m)"
| "unix (Stat p) m =
     (case m_dir m p of None \<Rightarrow> (Fail ENOENT, m) | Some k \<Rightarrow> (stat_of m k, m))"
| "unix (Lstat p) m =
     (case m_dir m p of None \<Rightarrow> (Fail ENOENT, m) | Some k \<Rightarrow> (stat_of m k, m))"
| "unix (Fstat fd) m =
     (case m_fd m of
        None \<Rightarrow> (Fail EBADF, m)
      | Some k \<Rightarrow> if fd = 3 then (stat_of m k, m) else (Fail EBADF, m))"
| "unix (Open p O_RDONLY) m =
     (case m_dir m p of
        None \<Rightarrow> (Fail ENOENT, m)
      | Some k \<Rightarrow>
          (case m_fd m of
             Some other \<Rightarrow> (Fail EMFILE, m)
           | None \<Rightarrow> (Done 3, m\<lparr>m_fd := Some k\<rparr>)))"
| "unix (Open p O_CREAT_EXCL) m =
     (case m_dir m p of
        Some k \<Rightarrow> (Fail EEXIST, m)
      | None \<Rightarrow>
          (case m_fd m of
             Some other \<Rightarrow> (Fail EMFILE, m)
           | None \<Rightarrow>
               (Done 3,
                m\<lparr>m_dir := (m_dir m)(p := Some (m_dev m, m_next_ino m)),
                  m_inodes := (m_inodes m)((m_dev m, m_next_ino m) := Some (new_inode m)),
                  m_fd := Some (m_dev m, m_next_ino m),
                  m_next_ino := m_next_ino m + 1\<rparr>)))"
| "unix (Read fd n) m =
     (case m_fd m of
        None \<Rightarrow> (Fail EBADF, m)
      | Some k \<Rightarrow>
          if fd = 3 then
            (case m_inodes m k of
               None \<Rightarrow> (Fail EIO, m)
             | Some f \<Rightarrow>
                 (Bytes (take n (i_data f)),
                  if m_strictatime m
                  then m\<lparr>m_inodes := (m_inodes m)
                          (k := Some (f\<lparr>i_stat := (i_stat f)\<lparr>st_atime := m_clock m\<rparr>\<rparr>))\<rparr>
                  else m))
          else (Fail EBADF, m))"
| "unix (Write fd s) m =
     (case m_fd m of
        None \<Rightarrow> (Fail EBADF, m)
      | Some k \<Rightarrow>
          if fd = 3 then
            (case m_inodes m k of
               None \<Rightarrow> (Fail EIO, m)
             | Some f \<Rightarrow>
                 (Done (int (length s)),
                  m\<lparr>m_inodes := (m_inodes m)
                       (k := Some (f\<lparr>i_stat := (i_stat f)\<lparr>st_mtime := m_clock m\<rparr>,
                                      i_data := i_data f @ s\<rparr>))\<rparr>))
          else (Fail EBADF, m))"
| "unix (Close fd) m =
     (case m_fd m of
        None \<Rightarrow> (Fail EBADF, m)
      | Some k \<Rightarrow> if fd = 3 then (Done 0, m\<lparr>m_fd := None\<rparr>) else (Fail EBADF, m))"
| "unix (Link old new) m =
     (case m_dir m old of
        None \<Rightarrow> (Fail ENOENT, m)
      | Some k \<Rightarrow>
          (case m_dir m new of
             Some other \<Rightarrow> (Fail EEXIST, m)
           | None \<Rightarrow> (Done 0, m\<lparr>m_dir := (m_dir m)(new := Some k)\<rparr>)))"
| "unix (Unlink p) m =
     (case m_dir m p of
        None \<Rightarrow> (Fail ENOENT, m)
      | Some k \<Rightarrow>
          if m_protected m p then (Fail EPERM, m)
          else (Done 0, m\<lparr>m_dir := (m_dir m)(p := None)\<rparr>))"

definition boot :: "machine \<Rightarrow> machine world" where
  "boot m = \<lparr>kernel = unix, kstate = m, errno = ENONE, trace = []\<rparr>"

text \<open>A regular file on device \<open>dev\<close> with inode number \<open>ino\<close>.\<close>

definition regular :: "nat \<Rightarrow> nat \<Rightarrow> int \<Rightarrow> int \<Rightarrow> string \<Rightarrow> inode" where
  "regular dev ino atime mtime content =
     \<lparr>i_stat = \<lparr>st_dev = dev, st_ino = ino, st_rdev = 0, st_atime = atime, st_mtime = mtime\<rparr>,
      i_data = content\<rparr>"

text \<open>A machine at time \<open>t\<close>, running the caller as process \<open>pid\<close> on device 1, with
  an empty directory and no other process.\<close>

definition bare :: "int \<Rightarrow> int \<Rightarrow> machine" where
  "bare pid t =
     \<lparr>m_pid = pid, m_clock = t, m_dev = 1, m_next_ino = 20,
      m_dir = (\<lambda>p. None), m_inodes = (\<lambda>k. None), m_fd = None,
      m_probe = (\<lambda>t p. Fail ESRCH), m_strictatime = False,
      m_protected = (\<lambda>p. False)\<rparr>"

text \<open>The same machine with file \<open>f\<close> at path \<open>p\<close>.\<close>

definition with_file :: "path \<Rightarrow> inode \<Rightarrow> machine \<Rightarrow> machine" where
  "with_file p f m =
     m\<lparr>m_dir := (m_dir m)(p := Some (st_dev (i_stat f), st_ino (i_stat f))),
       m_inodes := (m_inodes m)((st_dev (i_stat f), st_ino (i_stat f)) := Some f)\<rparr>"

section \<open>Example machines\<close>

text \<open>The lock path is \<^verbatim>\<open>/ap.lock\<close>, the caller is process 4711 and the clock reads
  1000; the temporary path the code derives is then \<^verbatim>\<open>/ap.lock.lk047118\<close>.\<close>

text \<open>The lock is held by process 100, which is alive.\<close>

definition held_lock :: machine where
  "held_lock =
     with_file ''/ap.lock'' (regular 1 9 1000 1000 (''100'' @ [CHR 0x0A]))
       ((bare 4711 1000)\<lparr>m_probe := (\<lambda>t p. if p = 100 then Done 0 else Fail ESRCH)\<rparr>)"

text \<open>The same, but process 100 exits at time 1003.\<close>

definition dying_holder :: machine where
  "dying_holder =
     with_file ''/ap.lock'' (regular 1 9 1000 1000 (''100'' @ [CHR 0x0A]))
       ((bare 4711 1000)\<lparr>m_probe :=
          (\<lambda>t p. if p = 100 \<and> t < 1003 then Done 0 else Fail ESRCH)\<rparr>)"

text \<open>The lock names process 100, which no longer exists.\<close>

definition stale_lock :: machine where
  "stale_lock =
     with_file ''/ap.lock'' (regular 1 9 1000 1000 (''100'' @ [CHR 0x0A])) (bare 4711 1000)"

text \<open>The same, in the middle of an acquisition: the caller's temporary file exists.\<close>

definition stale_lock_claimed :: machine where
  "stale_lock_claimed =
     with_file ''/ap.lock.lk047118'' (regular 1 20 1000 1000 (''4711'' @ [CHR 0x0A])) stale_lock"

text \<open>A stale lock that the caller may not remove (a file of another user in a
  sticky directory).\<close>

definition stuck_stale_lock :: machine where
  "stuck_stale_lock = stale_lock\<lparr>m_protected := (\<lambda>p. p = ''/ap.lock'')\<rparr>"

text \<open>The lock path is a mount point: the file found there lives on device 2, where
  it has the inode number that the next file created on device 1 gets.  Its owner,
  process 100, is alive.\<close>

definition foreign_lock :: machine where
  "foreign_lock =
     with_file ''/ap.lock'' (regular 2 20 1000 1000 (''100'' @ [CHR 0x0A]))
       ((bare 4711 1000)\<lparr>m_probe := (\<lambda>t p. if p = 100 then Done 0 else Fail ESRCH)\<rparr>)"

text \<open>A lock without a process id, last modified at \<open>mtime\<close>, on a file system that
  does not touch the access time.\<close>

definition pidless_lock :: "int \<Rightarrow> machine" where
  "pidless_lock mtime = with_file ''/ap.lock'' (regular 1 9 mtime mtime []) (bare 4711 1000)"

text \<open>The same lock on a file system that sets the access time at every read.\<close>

definition pidless_lock_atime :: "int \<Rightarrow> machine" where
  "pidless_lock_atime mtime = (pidless_lock mtime)\<lparr>m_strictatime := True\<rparr>"

text \<open>A lock without a process id, last read at 100 and last modified at 150, on a
  file system that sets the access time at every read; the clock reads 500.\<close>

definition reread_lock :: machine where
  "reread_lock =
     with_file ''/ap.lock'' (regular 1 9 100 150 []) ((bare 4711 500)\<lparr>m_strictatime := True\<rparr>)"

text \<open>A lock file of sixteen bytes.\<close>

definition long_lock :: machine where
  "long_lock =
     with_file ''/ap.lock'' (regular 1 9 1000 1000 ''1234567890123456'') (bare 4711 1000)"

section \<open>Reading the call log\<close>

fun is_link :: "call \<Rightarrow> bool" where
  "is_link (Link old new) = True"
| "is_link other = False"

fun is_sleep :: "call \<Rightarrow> bool" where
  "is_sleep (Sleep n) = True"
| "is_sleep other = False"

fun is_unlink :: "call \<Rightarrow> bool" where
  "is_unlink (Unlink p) = True"
| "is_unlink other = False"

text \<open>The loop body calls \<^verbatim>\<open>link\<close> once per pass and nothing else does, so the
  number of \<^verbatim>\<open>link\<close> calls in the log is the number of passes.\<close>

definition links :: "(call \<times> reply) list \<Rightarrow> nat" where
  "links tr = length (filter (\<lambda>e. is_link (fst e)) tr)"

definition sleeps :: "(call \<times> reply) list \<Rightarrow> nat" where
  "sleeps tr = length (filter (\<lambda>e. is_sleep (fst e)) tr)"

text \<open>The log ends with the two stats of lines 178 and 181, equal in \<^verbatim>\<open>st_rdev\<close>
  and \<^verbatim>\<open>st_ino\<close>, followed by the removal of the temporary path.\<close>

definition stats_matched :: "path \<Rightarrow> path \<Rightarrow> (call \<times> reply) list \<Rightarrow> bool" where
  "stats_matched lock tmp tr =
     (case rev tr of
        (Unlink a, u) # (Lstat b, Stat_buf st) # (Lstat c, Stat_buf st1) # older \<Rightarrow>
          a = tmp \<and> b = lock \<and> c = tmp \<and> st_rdev st = st_rdev st1 \<and> st_ino st = st_ino st1
      | _ \<Rightarrow> False)"

text \<open>The answers to \<^verbatim>\<open>kill(pid, 0)\<close> on which lines 97 to 101 return nothing:
  a failure other than \<open>EPERM\<close> and \<open>ESRCH\<close>.\<close>

fun probe_undecided :: "reply \<Rightarrow> bool" where
  "probe_undecided (Done n) = False"
| "probe_undecided (Fail e) = (e \<noteq> EPERM \<and> e \<noteq> ESRCH)"
| "probe_undecided other = True"

section \<open>Running the code on a machine\<close>

lemmas sys_defs = sys_getpid_def sys_time_def sys_stat_def sys_lstat_def sys_fstat_def
  sys_open_def sys_write_def sys_close_def sys_kill_def sys_link_def sys_unlink_def
  sys_sleep_def

lemmas run_defs = ap_lockfile_create_def lockfile_try_create_def link_loop.simps try_link_def
  tmplock_filename_def lockfile_check_valid_def lockfile_examine_def lockfile_decide_def
  parse_pid_def ap_lockfile_release_def
  syscall_def sys_status_def sys_value_def sys_statbuf_def sys_read_def sys_malloc_def sys_defs
  boot_def with_file_def bare_def regular_def stat_of_def stat_unset_def new_inode_def
  atoi_def c_string_def is_space_def is_digit_def dec_value_def digit_val_def to_int32_def
  snprintf_def fmt_d_def fmt_0d_def fmt_0x_def zero_pad_def digit_char_def INT_MAX_def
  TMPLOCK_SUFFIX_SIZE_def TMPLOCK_EXT_SIZE_def TMPLOCK_EXT_def TMPLOCK_PID_SIZE_def
  TMPLOCK_TIME_SIZE_def LOCK_ERR_GENERIC_def LOCK_ERR_MAXRETRIES_def LOCK_ERR_RMSTALE_def
  LOCK_ERR_TMPLOCK_def LOCK_ERR_TMPWRITE_def UNLOCK_ERR_GENERIC_def newer_than_5_mins_def
  TIME_MAX_def
  links_def sleeps_def

lemma replicate_1: "replicate 1 x = [x]"
  by (simp add: eval_nat_numeral)

section \<open>What every call adds to the log\<close>

lemma trace_syscall: "trace (snd (syscall c w)) = trace w @ [(c, fst (kernel w c (kstate w)))]"
  by (simp add: syscall_def split_beta)

lemma trace_sys_status: "trace (snd (sys_status c w)) = trace (snd (syscall c w))"
  by (simp add: sys_status_def split_beta split: reply.split)

lemma trace_sys_value: "trace (snd (sys_value c w)) = trace (snd (syscall c w))"
  by (simp add: sys_value_def split_beta split: reply.split)

lemma trace_sys_statbuf: "trace (snd (sys_statbuf c b w)) = trace (snd (syscall c w))"
  by (simp add: sys_statbuf_def split_beta split: reply.split)

lemma trace_sys_read: "trace (snd (sys_read fd n w)) = trace (snd (syscall (Read fd n) w))"
  by (simp add: sys_read_def split_beta split: reply.split)

lemma trace_sys_malloc: "trace (snd (sys_malloc n w)) = trace (snd (syscall (Malloc n) w))"
  by (simp add: sys_malloc_def split_beta trace_sys_value)

lemmas trace_sys = trace_sys_status trace_sys_value trace_sys_statbuf trace_sys_read
  trace_sys_malloc

lemma links_syscall:
  "links (trace (snd (syscall c w))) = links (trace w) + (if is_link c then 1 else 0)"
  by (simp add: trace_syscall links_def)

lemma sleeps_syscall:
  "sleeps (trace (snd (syscall c w))) = sleeps (trace w) + (if is_sleep c then 1 else 0)"
  by (simp add: trace_syscall sleeps_def)

lemmas links_sys = trace_sys links_syscall

lemmas sleeps_sys = trace_sys sleeps_syscall

subsection \<open>The helpers call neither \<^verbatim>\<open>link\<close> nor \<^verbatim>\<open>sleep\<close>\<close>

lemma links_tmplock_filename:
  "links (trace (snd (tmplock_filename lf b n w))) = links (trace w)"
  by (simp add: tmplock_filename_def sys_defs links_sys split_beta split: option.split)

lemma links_lockfile_examine:
  "links (trace (snd (lockfile_examine lk st w))) = links (trace w)"
  by (simp add: lockfile_examine_def sys_defs links_sys split_beta split: sum.split)

lemma links_lockfile_decide:
  "links (trace (snd (lockfile_decide x w))) = links (trace w)"
  by (simp add: lockfile_decide_def sys_defs links_sys split_beta)

lemma links_lockfile_check_valid:
  "links (trace (snd (lockfile_check_valid lf w))) = links (trace w)"
  by (simp add: lockfile_check_valid_def sys_defs links_sys split_beta
      links_lockfile_examine links_lockfile_decide split: option.split sum.split)

lemma sleeps_lockfile_examine:
  "sleeps (trace (snd (lockfile_examine lk st w))) = sleeps (trace w)"
  by (simp add: lockfile_examine_def sys_defs sleeps_sys split_beta split: sum.split)

lemma sleeps_lockfile_decide:
  "sleeps (trace (snd (lockfile_decide x w))) = sleeps (trace w)"
  by (simp add: lockfile_decide_def sys_defs sleeps_sys split_beta)

lemma sleeps_lockfile_check_valid:
  "sleeps (trace (snd (lockfile_check_valid lf w))) = sleeps (trace w)"
  by (simp add: lockfile_check_valid_def sys_defs sleeps_sys split_beta
      sleeps_lockfile_examine sleeps_lockfile_decide split: option.split sum.split)

subsection \<open>The validity check never ends on an \<^verbatim>\<open>unlink\<close>\<close>

lemma nonempty_lockfile_examine:
  "trace (snd (lockfile_examine lk st w)) \<noteq> []"
  by (simp add: lockfile_examine_def sys_defs trace_sys trace_syscall split_beta split: sum.split)

lemma last_lockfile_examine:
  "\<not> is_unlink (fst (last (trace (snd (lockfile_examine lk st w)))))"
  by (simp add: lockfile_examine_def sys_defs trace_sys trace_syscall split_beta split: sum.split)

lemma last_lockfile_decide:
  "trace w \<noteq> [] \<Longrightarrow> \<not> is_unlink (fst (last (trace w))) \<Longrightarrow>
   \<not> is_unlink (fst (last (trace (snd (lockfile_decide x w)))))"
  by (simp add: lockfile_decide_def sys_defs trace_sys trace_syscall split_beta)

lemma last_lockfile_check_valid:
  "\<not> is_unlink (fst (last (trace (snd (lockfile_check_valid (Some lk) w)))))"
  by (simp add: lockfile_check_valid_def sys_defs trace_sys trace_syscall split_beta
      nonempty_lockfile_examine last_lockfile_examine last_lockfile_decide
      split: sum.split)

section \<open>One pass through the loop\<close>

lemma try_link_links:
  "links (trace (snd (try_link l t v w))) = links (trace w) + 1"
  by (simp add: try_link_def sys_defs links_sys split_beta Let_def links_lockfile_check_valid
      split: sum.split)

lemma try_link_sleeps:
  "sleeps (trace (snd (try_link l t v w)))
     = sleeps (trace w) + (if lv_dontsleep v then 0 else 1)"
  by (simp add: try_link_def sys_defs sleeps_sys split_beta Let_def sleeps_lockfile_check_valid
      split: sum.split)

lemma try_link_again:
  "try_link l t v w = (Again v', w') \<Longrightarrow>
     lv_i v' = lv_i v \<and> (lv_tries v' = lv_tries v \<or> lv_tries v = 1 \<and> lv_tries v' = 2)"
  by (auto simp: try_link_def Let_def split: prod.splits if_splits sum.splits)

lemma sys_statbuf_filled:
  "\<not> fst (fst (sys_statbuf c b w)) < 0 \<Longrightarrow>
     fst (kernel w c (kstate w)) = Stat_buf (snd (fst (sys_statbuf c b w)))"
  by (simp add: sys_statbuf_def syscall_def split_beta split: reply.splits)

lemma try_link_acquired:
  assumes "try_link l t v w = (Return 0, w')"
  shows "stats_matched l t (trace w')"
  using assms
  by (auto simp: try_link_def sys_defs trace_sys trace_syscall split_beta Let_def
        stats_matched_def LOCK_ERR_GENERIC_def LOCK_ERR_MAXRETRIES_def LOCK_ERR_RMSTALE_def
        dest!: sys_statbuf_filled split: sum.splits if_splits)

section \<open>The loop\<close>

lemma link_loop_stop:
  assumes "\<not> (lv_i v < lv_tries v \<and> 0 < lv_tries v)"
  shows "link_loop l t v w = (Inr LOCK_ERR_MAXRETRIES, snd (sys_unlink t w))"
  by (subst link_loop.simps) (simp only: assms if_False)

lemma link_loop_step:
  "lv_i v < lv_tries v \<Longrightarrow> 0 < lv_tries v \<Longrightarrow>
     link_loop l t v w =
       (case try_link l t v w of
          (Return r, w') \<Rightarrow> (Inr r, w')
        | (Crash f, w') \<Rightarrow> (Inl f, w')
        | (Again v', w') \<Rightarrow> link_loop l t (v'\<lparr>lv_i := lv_i v' + 1\<rparr>) w')"
  by (subst link_loop.simps) simp

text \<open>The passes still to come are bounded by the tries left, counting a budget of
  one try as two: that is the only budget line 219 ever raises.\<close>

lemma link_loop_links:
  "links (trace (snd (link_loop l t v w)))
     \<le> links (trace w) + nat ((if lv_tries v = 1 then 2 else lv_tries v) - lv_i v)"
proof (induction l t v w rule: link_loop.induct)
  case (1 l t v w)
  let ?B = "\<lambda>u. if lv_tries u = 1 then 2 else lv_tries u"
  show ?case
  proof (cases "lv_i v < lv_tries v \<and> 0 < lv_tries v")
    case False
    then show ?thesis
      by (simp add: link_loop_stop sys_defs links_sys)
  next
    case True
    obtain fl w' where step: "try_link l t v w = (fl, w')"
      by (cases "try_link l t v w")
    have one: "links (trace w') = links (trace w) + 1"
      using try_link_links [of l t v w] step by simp
    from True have room: "1 \<le> nat (?B v - lv_i v)"
      by auto
    show ?thesis
    proof (cases fl)
      case (Return r)
      with True step one room show ?thesis
        by (simp add: link_loop_step)
    next
      case (Crash f)
      with True step one room show ?thesis
        by (simp add: link_loop_step)
    next
      case (Again v')
      with step have keep: "lv_i v' = lv_i v"
        and tries: "lv_tries v' = lv_tries v \<or> lv_tries v = 1 \<and> lv_tries v' = 2"
        using try_link_again [of l t v w v' w'] by simp_all
      from tries have B: "?B (v'\<lparr>lv_i := lv_i v' + 1\<rparr>) = ?B v"
        by auto
      have "links (trace (snd (link_loop l t (v'\<lparr>lv_i := lv_i v' + 1\<rparr>) w')))
              \<le> links (trace w')
                  + nat (?B (v'\<lparr>lv_i := lv_i v' + 1\<rparr>) - lv_i (v'\<lparr>lv_i := lv_i v' + 1\<rparr>))"
        using "1.IH" [OF True step [symmetric] Again] .
      also have "\<dots> = links (trace w) + 1 + nat (?B v - (lv_i v + 1))"
        using B keep one by simp
      also have "\<dots> = links (trace w) + nat (?B v - lv_i v)"
        using True by auto
      finally show ?thesis
        using True step Again by (simp add: link_loop_step)
    qed
  qed
qed

lemma lockfile_try_create_links:
  assumes "retries \<noteq> 0"
  shows "links (trace (snd (lockfile_try_create lk pid buf n retries w)))
     \<le> links (trace w) + nat (retries + 1)"
proof -
  have loop: "links (trace (snd (link_loop lk t
        \<lparr>lv_i = 0, lv_tries = retries + 1, lv_sleeptime = 0, lv_statfailed = 0,
         lv_dontsleep = True\<rparr> w')))
      \<le> links (trace w') + nat (retries + 1)" for t and w' :: "'a world"
    using link_loop_links [of lk t "\<lparr>lv_i = 0, lv_tries = retries + 1, lv_sleeptime = 0,
        lv_statfailed = 0, lv_dontsleep = True\<rparr>" w'] assms by simp
  show ?thesis
    unfolding lockfile_try_create_def
    by (auto simp: split_beta sys_defs links_sys links_tmplock_filename
        intro!: order_trans [OF loop] split: option.split)
qed

section \<open>What a return of 0 rests on\<close>

text \<open>Whatever \<^verbatim>\<open>link\<close> answered: a return of 0 comes right after a stat of the
  temporary path and a stat of the lock path that agree in \<^verbatim>\<open>st_rdev\<close> and
  \<^verbatim>\<open>st_ino\<close>.  Nothing is said about \<^verbatim>\<open>st_dev\<close>.\<close>

lemma link_loop_acquired:
  "link_loop l t v w = (Inr 0, w') \<Longrightarrow> stats_matched l t (trace w')"
proof (induction l t v w rule: link_loop.induct)
  case (1 l t v w)
  show ?case
  proof (cases "lv_i v < lv_tries v \<and> 0 < lv_tries v")
    case False
    with "1.prems" show ?thesis
      by (simp add: link_loop_stop LOCK_ERR_MAXRETRIES_def)
  next
    case True
    obtain fl w1 where step: "try_link l t v w = (fl, w1)"
      by (cases "try_link l t v w")
    show ?thesis
    proof (cases fl)
      case (Return r)
      with True step "1.prems" show ?thesis
        by (auto simp: link_loop_step dest: try_link_acquired)
    next
      case (Crash f)
      with True step "1.prems" show ?thesis
        by (simp add: link_loop_step)
    next
      case (Again v')
      with True step "1.prems" "1.IH" [OF True step [symmetric] Again] show ?thesis
        by (simp add: link_loop_step)
    qed
  qed
qed

lemma lockfile_try_create_acquired:
  "lockfile_try_create lk pid buf n retries w = (Inr 0, w') \<Longrightarrow>
     \<exists>tmp. stats_matched lk tmp (trace w')"
  by (auto simp: lockfile_try_create_def split_beta LOCK_ERR_GENERIC_def LOCK_ERR_TMPLOCK_def
      LOCK_ERR_TMPWRITE_def dest: link_loop_acquired split: if_splits option.splits)

lemma ap_lockfile_create_acquired:
  "ap_lockfile_create (Some lk) pid retries w = (Inr 0, w') \<Longrightarrow>
     \<exists>tmp. stats_matched lk tmp (trace w')"
  by (auto simp: ap_lockfile_create_def split_beta LOCK_ERR_GENERIC_def
      dest: lockfile_try_create_acquired split: if_splits)

section \<open>The age test\<close>

text \<open>When no positive process id was parsed, or the probe decided nothing, the
  result is the age test against the code's own \<^verbatim>\<open>now\<close>: \<open>ex_now\<close> is \<^verbatim>\<open>now\<close> and
  \<open>ex_st\<close> is \<^verbatim>\<open>st\<close> as line 109 reads them.  Short of the overflow the test says
  that the age, \<^verbatim>\<open>now\<close> minus the modification time, is less than 300 seconds.\<close>

lemma newer_than_5_mins_age:
  "st_mtime (ex_st x) \<le> TIME_MAX - 300 \<Longrightarrow>
     newer_than_5_mins x = Inr (ex_now x - st_mtime (ex_st x) < 300)"
  by (auto simp: newer_than_5_mins_def)

lemma lockfile_check_valid_age:
  fixes lk :: path and w :: "'k world"
  defines "s \<equiv> sys_stat lk stat_unset w"
  defines "e \<equiv> lockfile_examine lk (snd (fst s)) (snd s)"
  assumes "\<not> fst (fst s) < 0" and "fst e = Inr x"
    and "ex_pid x \<le> 0
         \<or> probe_undecided (fst (kernel (snd e) (Kill (ex_pid x) 0) (kstate (snd e))))"
  shows "fst (lockfile_check_valid (Some lk) w) = newer_than_5_mins x"
proof (cases "ex_pid x \<le> 0")
  case True
  with assms show ?thesis
    by (simp add: lockfile_check_valid_def lockfile_decide_def split_beta)
next
  case False
  with assms have "probe_undecided (fst (kernel (snd e) (Kill (ex_pid x) 0) (kstate (snd e))))"
    by simp
  with assms False show ?thesis
    by (cases "fst (kernel (snd e) (Kill (ex_pid x) 0) (kstate (snd e)))")
       (simp_all add: lockfile_check_valid_def lockfile_decide_def sys_kill_def sys_status_def
          syscall_def split_beta)
qed

section \<open>The claims\<close>

subsection \<open>C1: what an acquisition has confirmed\<close>

text \<open>
  C1 says that \<^verbatim>\<open>ap_lockfile_create\<close> returns 0 only when the stat of the lock path
  and the stat of the temporary path agree on device and inode, that is, when both
  name the same file.  Lines 198 and 199 compare \<^verbatim>\<open>st_rdev\<close> and \<^verbatim>\<open>st_ino\<close>
  (lemma \<open>ap_lockfile_create_acquired\<close> is what a return of 0 does rest on).
  \<^verbatim>\<open>st_rdev\<close> is the device a special file stands for and is 0 for every regular
  file; the device a file lives on is \<^verbatim>\<open>st_dev\<close>, which the code never reads.  On
  the machine \<open>foreign_lock\<close> the lock path is held by another process through a file
  on device 2 whose inode number equals that of the caller's temporary file on
  device 1: \<^verbatim>\<open>link\<close> fails, the two stats differ in \<^verbatim>\<open>st_dev\<close>, the lock path
  still names the other file afterwards, and the call returns 0.
\<close>

theorem acquired_across_devices:
  "fst (ap_lockfile_create (Some ''/ap.lock'') 4711 1 (boot foreign_lock)) = Inr 0
   \<and> trace (snd (ap_lockfile_create (Some ''/ap.lock'') 4711 1 (boot foreign_lock))) =
       [(Malloc 18, Done 1), (Getpid, Done 4711), (Time, Done 1000),
        (Open ''/ap.lock.lk047118'' O_CREAT_EXCL, Done 3),
        (Write 3 (''4711'' @ [CHR 0x0A]), Done 5), (Close 3, Done 0),
        (Link ''/ap.lock.lk047118'' ''/ap.lock'', Fail EEXIST),
        (Lstat ''/ap.lock.lk047118'',
         Stat_buf \<lparr>st_dev = 1, st_ino = 20, st_rdev = 0, st_atime = 1000, st_mtime = 1000\<rparr>),
        (Lstat ''/ap.lock'',
         Stat_buf \<lparr>st_dev = 2, st_ino = 20, st_rdev = 0, st_atime = 1000, st_mtime = 1000\<rparr>),
        (Unlink ''/ap.lock.lk047118'', Done 0)]
   \<and> m_dir (kstate (snd (ap_lockfile_create (Some ''/ap.lock'') 4711 1 (boot foreign_lock))))
        ''/ap.lock'' = Some (2, 20)"
  by (simp add: run_defs foreign_lock_def replicate_1 cong: prod.case_cong_weak)

subsection \<open>C2: the number of passes through the loop\<close>

text \<open>
  C2 says that the loop runs at most \<open>maxRetries\<close> times.  Line 130 sets
  \<^verbatim>\<open>tries = retries + 1\<close>.  On the machine \<open>held_lock\<close> the lock is validly held
  throughout, nothing is reclaimed, and a call with \<open>retries = 1\<close> makes two passes.
\<close>

theorem claim_loop_exceeds_retries:
  "\<not> links (trace (snd (ap_lockfile_create (Some ''/ap.lock'') 4711 1 (boot held_lock))))
       \<le> unat (1 :: 32 word)
   \<and> Unlink ''/ap.lock''
       \<notin> set (map fst (trace (snd (ap_lockfile_create (Some ''/ap.lock'') 4711 1
                                      (boot held_lock)))))"
  by (simp add: run_defs held_lock_def replicate_1 cong: prod.case_cong_weak)

text \<open>
  C2 as the code has it: for every lock path, every process id, every \<open>retries\<close>
  and every behaviour of the operating system, \<^verbatim>\<open>ap_lockfile_create\<close> makes at most
  \<open>retries + 1\<close> passes through the loop.  The count asked for is the number of
  tries after the first one; the extension of line 219 needs a budget of exactly
  one try, which no \<open>retries \<ge> 1\<close> gives, so it never adds a pass.  (A count of
  \<^verbatim>\<open>INT_MAX\<close> or more leaves the loop without a pass.)
\<close>

theorem claim_loop_bound:
  "links (trace (snd (ap_lockfile_create lockfile pid retries w)))
     \<le> links (trace w) + unat retries + 1"
proof (cases lockfile)
  case None
  then show ?thesis by (simp add: ap_lockfile_create_def)
next
  case (Some lk)
  show ?thesis
  proof (cases "retries = 0")
    case True
    with Some show ?thesis by (simp add: ap_lockfile_create_def)
  next
    case False
    then have nz: "sint retries \<noteq> 0"
      by (simp add: signed_eq_0_iff)
    have le: "nat (sint retries + 1) \<le> unat retries + 1"
    proof -
      have "(0::int) \<le> uint retries" by simp
      then have "- 2147483648 \<le> uint retries" by linarith
      then have "sint retries \<le> uint retries"
        by (simp add: sint_uint signed_take_bit_int_less_eq_self_iff)
      also have "\<dots> = int (unat retries)" by simp
      finally show ?thesis by linarith
    qed
    have inner: "links (trace (snd (lockfile_try_create lk pid [] n (sint retries) w')))
        \<le> links (trace w') + (unat retries + 1)" for n and w' :: "'a world"
      using lockfile_try_create_links [OF nz, of lk pid "[]" n w'] le by simp
    show ?thesis
      using Some False inner
      by (auto simp: ap_lockfile_create_def split_beta links_sys intro!: order_trans [OF inner])
  qed
qed

text \<open>C2, an instance: three retries against a held lock.\<close>

theorem claim_loop_bound_witness:
  "links (trace (snd (ap_lockfile_create (Some ''/ap.lock'') 4711 3 (boot held_lock)))) \<le> 4"
  using claim_loop_bound [of "Some ''/ap.lock''" 4711 3 "boot held_lock"]
  by (simp add: boot_def links_def)

subsection \<open>C3: after a stale lock has been removed\<close>

text \<open>
  C3 says that a pass that removes a stale lock earns one extra pass whenever it was
  the last one allowed, whatever the number of tries.  On the machine
  \<open>dying_holder\<close> a call with \<open>retries = 1\<close> has two tries.  The first pass finds
  the holder alive; the holder exits during the backoff sleep; the second and last
  pass finds the lock stale and removes it.  No third pass follows: the log holds
  two calls of \<^verbatim>\<open>link\<close>, the call after the removal is the one that removes the
  temporary file, and the result is \<^verbatim>\<open>LOCK_ERR_MAXRETRIES\<close>.
\<close>

theorem no_extra_try_after_last_removal:
  "fst (ap_lockfile_create (Some ''/ap.lock'') 4711 1 (boot dying_holder))
     = Inr LOCK_ERR_MAXRETRIES
   \<and> links (trace (snd (ap_lockfile_create (Some ''/ap.lock'') 4711 1 (boot dying_holder)))) = 2
   \<and> map fst (trace (snd (ap_lockfile_create (Some ''/ap.lock'') 4711 1 (boot dying_holder)))) =
       [Malloc 18, Getpid, Time, Open ''/ap.lock.lk047118'' O_CREAT_EXCL,
        Write 3 (''4711'' @ [CHR 0x0A]), Close 3,
        Link ''/ap.lock.lk047118'' ''/ap.lock'',
        Lstat ''/ap.lock.lk047118'', Lstat ''/ap.lock'', Stat ''/ap.lock'', Time,
        Open ''/ap.lock'' O_RDONLY, Fstat 3, Read 3 16, Fstat 3, Close 3, Kill 100 0,
        Sleep 5,
        Link ''/ap.lock.lk047118'' ''/ap.lock'',
        Lstat ''/ap.lock.lk047118'', Lstat ''/ap.lock'', Stat ''/ap.lock'', Time,
        Open ''/ap.lock'' O_RDONLY, Fstat 3, Read 3 16, Fstat 3, Close 3, Kill 100 0,
        Unlink ''/ap.lock'',
        Unlink ''/ap.lock.lk047118'']"
  by (simp add: run_defs dying_holder_def replicate_1 cong: prod.case_cong_weak)

text \<open>
  C3 as the code has it: whenever a pass ends by removing the stale lock path (its
  last call is that \<^verbatim>\<open>unlink\<close>, which succeeded or found the path already gone),
  the next pass makes no \<^verbatim>\<open>sleep\<close> call, and the number of allowed tries becomes 2
  if it was 1 and otherwise stays as it is, also when the pass was the last one
  allowed.
\<close>

theorem stale_removal_retry:
  assumes "try_link l t v w = (Again v', w')" and "is_unlink (fst (last (trace w')))"
  shows "lv_dontsleep v'
    \<and> sleeps (trace (snd (try_link l t (v'\<lparr>lv_i := lv_i v' + 1\<rparr>) w'))) = sleeps (trace w')
    \<and> lv_tries v' = (if lv_tries v = 1 then 2 else lv_tries v)"
proof -
  have "lv_dontsleep v' \<and> lv_tries v' = (if lv_tries v = 1 then 2 else lv_tries v)"
    using assms last_lockfile_check_valid [of l]
    by (auto simp: try_link_def sys_defs trace_sys trace_syscall split_beta Let_def
        split: sum.splits if_splits)
  then show ?thesis
    by (simp add: try_link_sleeps)
qed

text \<open>C3, an instance: the second of three tries sleeps 10 seconds and removes a stale
  lock; the third try does not sleep.\<close>

theorem stale_removal_retry_witness:
  "try_link ''/ap.lock'' ''/ap.lock.lk047118''
       \<lparr>lv_i = 1, lv_tries = 3, lv_sleeptime = 5, lv_statfailed = 0, lv_dontsleep = False\<rparr>
       (boot stale_lock_claimed)
     = (Again \<lparr>lv_i = 1, lv_tries = 3, lv_sleeptime = 10, lv_statfailed = 0, lv_dontsleep = True\<rparr>,
        snd (try_link ''/ap.lock'' ''/ap.lock.lk047118''
               \<lparr>lv_i = 1, lv_tries = 3, lv_sleeptime = 5, lv_statfailed = 0, lv_dontsleep = False\<rparr>
               (boot stale_lock_claimed)))
   \<and> last (trace (snd (try_link ''/ap.lock'' ''/ap.lock.lk047118''
               \<lparr>lv_i = 1, lv_tries = 3, lv_sleeptime = 5, lv_statfailed = 0, lv_dontsleep = False\<rparr>
               (boot stale_lock_claimed)))) = (Unlink ''/ap.lock'', Done 0)
   \<and> sleeps (trace (snd (try_link ''/ap.lock'' ''/ap.lock.lk047118''
               \<lparr>lv_i = 1, lv_tries = 3, lv_sleeptime = 5, lv_statfailed = 0, lv_dontsleep = False\<rparr>
               (boot stale_lock_claimed)))) = 1
   \<and> sleeps (trace (snd (try_link ''/ap.lock'' ''/ap.lock.lk047118''
        \<lparr>lv_i = 2, lv_tries = 3, lv_sleeptime = 10, lv_statfailed = 0, lv_dontsleep = True\<rparr>
        (snd (try_link ''/ap.lock'' ''/ap.lock.lk047118''
               \<lparr>lv_i = 1, lv_tries = 3, lv_sleeptime = 5, lv_statfailed = 0, lv_dontsleep = False\<rparr>
               (boot stale_lock_claimed)))))) = 1"
  using stale_removal_retry [of "''/ap.lock''" "''/ap.lock.lk047118''"
      "\<lparr>lv_i = 1, lv_tries = 3, lv_sleeptime = 5, lv_statfailed = 0, lv_dontsleep = False\<rparr>"
      "boot stale_lock_claimed"
      "\<lparr>lv_i = 1, lv_tries = 3, lv_sleeptime = 10, lv_statfailed = 0, lv_dontsleep = True\<rparr>"
      "snd (try_link ''/ap.lock'' ''/ap.lock.lk047118''
               \<lparr>lv_i = 1, lv_tries = 3, lv_sleeptime = 5, lv_statfailed = 0, lv_dontsleep = False\<rparr>
               (boot stale_lock_claimed))"]
  by (simp add: run_defs stale_lock_claimed_def stale_lock_def cong: prod.case_cong_weak)

subsection \<open>C4: the liveness probe\<close>



subsection \<open>C5: the age test\<close>

text \<open>
  C5 says that without a usable process id, or after a probe that decided nothing,
  \<^verbatim>\<open>lockfile_check_valid\<close> returns true exactly when the lock file was modified
  within the last 300 seconds, and in particular that a lock without a process id
  that was modified more than 300 seconds ago is reported stale.  Line 109 tests
  the modification time against \<^verbatim>\<open>now\<close> (lemma \<open>lockfile_check_valid_age\<close>), and
  line 81 has set \<^verbatim>\<open>now\<close> to the access time the file had before it was read.  On
  the machine \<open>pidless_lock_atime 699\<close> the clock reads 1000, the lock has no
  process id and was written, and last read, at 699; the read at line 78 moves the
  access time to 1000, so \<^verbatim>\<open>now\<close> becomes 699, and the lock, 301 seconds old, is
  reported valid.  The first pass of an acquisition therefore does not reclaim
  it, and with one retry the call ends in \<^verbatim>\<open>LOCK_ERR_MAXRETRIES\<close>.  On
  \<open>pidless_lock 699\<close>, the same machine with a file system that leaves the access
  time alone, the lock is stale and the same call acquires it.  This is the defect
  of C6 seen from the caller.
\<close>

theorem old_pidless_lock_reported_valid:
  "fst (lockfile_check_valid (Some ''/ap.lock'') (boot (pidless_lock_atime 699))) = Inr True
   \<and> trace (snd (lockfile_check_valid (Some ''/ap.lock'') (boot (pidless_lock_atime 699)))) =
       [(Stat ''/ap.lock'',
         Stat_buf \<lparr>st_dev = 1, st_ino = 9, st_rdev = 0, st_atime = 699, st_mtime = 699\<rparr>),
        (Time, Done 1000), (Open ''/ap.lock'' O_RDONLY, Done 3),
        (Fstat 3,
         Stat_buf \<lparr>st_dev = 1, st_ino = 9, st_rdev = 0, st_atime = 699, st_mtime = 699\<rparr>),
        (Read 3 16, Bytes []),
        (Fstat 3,
         Stat_buf \<lparr>st_dev = 1, st_ino = 9, st_rdev = 0, st_atime = 1000, st_mtime = 699\<rparr>),
        (Close 3, Done 0)]
   \<and> fst (ap_lockfile_create (Some ''/ap.lock'') 4711 1 (boot (pidless_lock_atime 699)))
       = Inr LOCK_ERR_MAXRETRIES
   \<and> fst (lockfile_check_valid (Some ''/ap.lock'') (boot (pidless_lock 699))) = Inr False
   \<and> fst (ap_lockfile_create (Some ''/ap.lock'') 4711 1 (boot (pidless_lock 699))) = Inr 0"
  by (simp add: run_defs pidless_lock_atime_def pidless_lock_def replicate_1
      cong: prod.case_cong_weak)

subsection \<open>C6: the reference time\<close>

text \<open>
  C6 says that when reading the lock file changed its access time, \<^verbatim>\<open>now\<close> is the
  access time seen after the read, as the comment at lines 71 to 75 announces.
  Line 81 assigns \<^verbatim>\<open>st.st_atime\<close>, and \<^verbatim>\<open>st\<close> was filled before the read; the stat
  taken after the read is \<^verbatim>\<open>st2\<close>.  On the machine \<open>reread_lock\<close> the access time is
  100 before the read and 500 after it, and the file was modified at 150: \<^verbatim>\<open>now\<close>
  becomes 100 and the lock, 350 seconds old, is reported valid.  C5 fails by the
  same assignment.
\<close>

theorem now_is_atime_before_read:
  "fst (lockfile_check_valid (Some ''/ap.lock'') (boot reread_lock)) = Inr True
   \<and> trace (snd (lockfile_check_valid (Some ''/ap.lock'') (boot reread_lock))) =
       [(Stat ''/ap.lock'',
         Stat_buf \<lparr>st_dev = 1, st_ino = 9, st_rdev = 0, st_atime = 100, st_mtime = 150\<rparr>),
        (Time, Done 500), (Open ''/ap.lock'' O_RDONLY, Done 3),
        (Fstat 3,
         Stat_buf \<lparr>st_dev = 1, st_ino = 9, st_rdev = 0, st_atime = 100, st_mtime = 150\<rparr>),
        (Read 3 16, Bytes []),
        (Fstat 3,
         Stat_buf \<lparr>st_dev = 1, st_ino = 9, st_rdev = 0, st_atime = 500, st_mtime = 150\<rparr>),
        (Close 3, Done 0)]
   \<and> fst (lockfile_examine ''/ap.lock''
            \<lparr>st_dev = 1, st_ino = 9, st_rdev = 0, st_atime = 100, st_mtime = 150\<rparr>
            (snd (sys_stat ''/ap.lock'' stat_unset (boot reread_lock)))) =
       Inr \<lparr>ex_st = \<lparr>st_dev = 1, st_ino = 9, st_rdev = 0, st_atime = 100, st_mtime = 150\<rparr>,
            ex_now = 100, ex_pid = 0\<rparr>"
  by (simp add: run_defs reread_lock_def cong: prod.case_cong_weak)

subsection \<open>C7: the temporary file on failure\<close>

text \<open>
  C7 says that every failure after the temporary file was written removes it, the
  return for a vanished temporary file apart.  The return at line 212 does not: on
  the machine \<open>stuck_stale_lock\<close> the stale lock cannot be removed, the call returns
  \<^verbatim>\<open>LOCK_ERR_RMSTALE\<close> without a call of \<^verbatim>\<open>unlink\<close> on the temporary path, and the
  temporary file is still in the directory.
\<close>

theorem rmstale_leaves_temp_file:
  "fst (ap_lockfile_create (Some ''/ap.lock'') 4711 1 (boot stuck_stale_lock))
     = Inr LOCK_ERR_RMSTALE
   \<and> m_dir (kstate (snd (ap_lockfile_create (Some ''/ap.lock'') 4711 1 (boot stuck_stale_lock))))
        ''/ap.lock.lk047118'' = Some (1, 20)
   \<and> map fst (trace (snd (ap_lockfile_create (Some ''/ap.lock'') 4711 1 (boot stuck_stale_lock)))) =
       [Malloc 18, Getpid, Time, Open ''/ap.lock.lk047118'' O_CREAT_EXCL,
        Write 3 (''4711'' @ [CHR 0x0A]), Close 3,
        Link ''/ap.lock.lk047118'' ''/ap.lock'',
        Lstat ''/ap.lock.lk047118'', Lstat ''/ap.lock'', Stat ''/ap.lock'', Time,
        Open ''/ap.lock'' O_RDONLY, Fstat 3, Read 3 16, Fstat 3, Close 3, Kill 100 0,
        Unlink ''/ap.lock'']"
  by (simp add: run_defs stuck_stale_lock_def stale_lock_def replicate_1 cong: prod.case_cong_weak)

subsection \<open>C8: the temporary name\<close>

text \<open>
  C8 says that \<^verbatim>\<open>tmplock_filename\<close> returns 0 only with the full name in the buffer.
  Lines 48 and 49 test \<^verbatim>\<open>r < 0\<close> only, and \<^verbatim>\<open>snprintf\<close> reports a truncation by a
  return value of at least the buffer size.  With the buffer size that
  \<^verbatim>\<open>ap_lockfile_create\<close> computes and a process id of seven digits, the name loses
  the last digit of the process id and the time digit, and the call returns 0.
\<close>

theorem tmplock_filename_truncates:
  "fst (tmplock_filename (Some ''/ap.lock'') (Some [])
          (length ''/ap.lock'' + TMPLOCK_SUFFIX_SIZE + 1) (boot (bare 1234567 1000)))
     = (0, Some ''/ap.lock.lk123456'')
   \<and> ''/ap.lock'' @ TMPLOCK_EXT @ fmt_0d TMPLOCK_PID_SIZE 1234567
        @ fmt_0x TMPLOCK_TIME_SIZE (nat (1000 mod 16)) = ''/ap.lock.lk12345678''"
  by (simp add: run_defs replicate_1 cong: prod.case_cong_weak)

subsection \<open>C9: release\<close>

text \<open>
  C9: \<^verbatim>\<open>ap_lockfile_release\<close> returns 0 when \<^verbatim>\<open>unlink\<close> succeeds or fails with
  \<open>ENOENT\<close> and \<^verbatim>\<open>UNLOCK_ERR_GENERIC\<close> on any other failure, whatever the operating
  system.  On every sequential machine \<open>m\<close> (nothing else acts between the two
  calls) a second release right after the first returns what the first returned
  and leaves the machine, its directory included, as the first left it; and after
  a release that returned 0 the lock path is gone.
\<close>

theorem release_contract:
  "fst (ap_lockfile_release (Some lk) w) =
     (case fst (kernel w (Unlink lk) (kstate w)) of
        Done n \<Rightarrow> 0
      | Fail e \<Rightarrow> (if e = ENOENT then 0 else UNLOCK_ERR_GENERIC)
      | Stat_buf s \<Rightarrow> UNLOCK_ERR_GENERIC
      | Bytes b \<Rightarrow> UNLOCK_ERR_GENERIC)
   \<and> (let once = ap_lockfile_release (Some lk) (boot m);
           twice = ap_lockfile_release (Some lk) (snd once)
       in fst twice = fst once \<and> kstate (snd twice) = kstate (snd once)
          \<and> (fst once = 0 \<longrightarrow> m_dir (kstate (snd once)) lk = None))"
proof
  show "fst (ap_lockfile_release (Some lk) w) =
     (case fst (kernel w (Unlink lk) (kstate w)) of
        Done n \<Rightarrow> 0
      | Fail e \<Rightarrow> (if e = ENOENT then 0 else UNLOCK_ERR_GENERIC)
      | Stat_buf s \<Rightarrow> UNLOCK_ERR_GENERIC
      | Bytes b \<Rightarrow> UNLOCK_ERR_GENERIC)"
    by (cases "fst (kernel w (Unlink lk) (kstate w))")
       (simp_all add: ap_lockfile_release_def sys_unlink_def sys_status_def syscall_def
          split_beta UNLOCK_ERR_GENERIC_def)
next
  show "let once = ap_lockfile_release (Some lk) (boot m);
           twice = ap_lockfile_release (Some lk) (snd once)
       in fst twice = fst once \<and> kstate (snd twice) = kstate (snd once)
          \<and> (fst once = 0 \<longrightarrow> m_dir (kstate (snd once)) lk = None)"
    by (cases "m_dir m lk"; cases "m_protected m lk")
       (simp_all add: ap_lockfile_release_def sys_unlink_def sys_status_def syscall_def
          boot_def UNLOCK_ERR_GENERIC_def Let_def)
qed

text \<open>C9, an instance: releasing a held lock twice.\<close>

theorem release_contract_witness:
  "fst (ap_lockfile_release (Some ''/ap.lock'') (boot held_lock)) = 0
   \<and> m_dir (kstate (snd (ap_lockfile_release (Some ''/ap.lock'') (boot held_lock))))
        ''/ap.lock'' = None
   \<and> fst (ap_lockfile_release (Some ''/ap.lock'')
            (snd (ap_lockfile_release (Some ''/ap.lock'') (boot held_lock)))) = 0
   \<and> kstate (snd (ap_lockfile_release (Some ''/ap.lock'')
            (snd (ap_lockfile_release (Some ''/ap.lock'') (boot held_lock)))))
       = kstate (snd (ap_lockfile_release (Some ''/ap.lock'') (boot held_lock)))"
  using release_contract [of "''/ap.lock''" "boot held_lock" held_lock]
  by (simp add: run_defs held_lock_def Let_def cong: prod.case_cong_weak)

subsection \<open>C10: the terminating NUL\<close>

text \<open>
  C10 says that the store \<^verbatim>\<open>buf[len] = 0\<close> at line 86 stays inside \<^verbatim>\<open>buf\<close>.
  \<^verbatim>\<open>read\<close> is asked for \<^verbatim>\<open>sizeof(buf)\<close>, 16 bytes, and returns 16 for a lock file of
  16 bytes or more; the store is then at index 16 of an array of 16.
\<close>

theorem check_valid_store_out_of_bounds:
  "fst (lockfile_check_valid (Some ''/ap.lock'') (boot long_lock)) = Inl (Out_of_bounds 16 16)
   \<and> (Read 3 16, Bytes ''1234567890123456'')
       \<in> set (trace (snd (lockfile_check_valid (Some ''/ap.lock'') (boot long_lock))))"
  by (simp add: run_defs long_lock_def cong: prod.case_cong_weak)

end
